theory Spec2Isabelle
  imports Main
begin

section \<open>Hall ticket system: the record store of \<^verbatim>\<open>alsu.py\<close>\<close>

subsection \<open>Values\<close>

text \<open>
  A cell of the student table. The form delivers strings; a table read back from the CSV
  file may hold integers (a column of digits) or the missing value NaN (an empty cell).
  pandas compares cell by cell: NaN is equal to nothing, itself included, and \<open>!=\<close> is the
  negation of \<open>==\<close> in every cell.
\<close>

datatype cell = Str string | Num int | NaN

fun py_eq :: "cell \<Rightarrow> cell \<Rightarrow> bool" where
  "py_eq NaN _ = False"
| "py_eq _ NaN = False"
| "py_eq a b = (a = b)"

definition py_ne :: "cell \<Rightarrow> cell \<Rightarrow> bool" where
  "py_ne a b = (\<not> py_eq a b)"

text \<open>Python values that the \<open>subjects\<close> entry of a record can hold.\<close>

datatype pyval =
    PStr string
  | PInt int
  | PNone
  | PList "pyval list"
  | PTuple "pyval list"
  | PDict "(string \<times> pyval) list"

text \<open>The dictionary \<open>student_data\<close>, one row of the table.\<close>

record student_data =
  id' :: cell
  name :: cell
  roll_number :: cell
  program :: cell
  semester :: cell
  exam_date :: cell
  seat_number :: cell
  hall_ticket_id :: cell
  subjects :: pyval

record dataframe =
  columns :: "string list"
  rows :: "student_data list"

definition required_columns :: "string list" where
  "required_columns =
     [''id'', ''name'', ''roll_number'', ''program'', ''semester'',
      ''exam_date'', ''seat_number'', ''hall_ticket_id'', ''subjects'']"

text \<open>\<open>pd.DataFrame(columns=[...])\<close>: the fixed columns and no row.\<close>

definition empty_frame :: dataframe where
  "empty_frame = \<lparr>columns = required_columns, rows = []\<rparr>"

text \<open>\<open>df[mask]\<close>: the rows where the mask holds, in their order, under the same columns.\<close>

definition select_rows :: "(student_data \<Rightarrow> bool) \<Rightarrow> dataframe \<Rightarrow> dataframe" where
  "select_rows keep df = df\<lparr>rows := filter keep (rows df)\<rparr>"

text \<open>
  \<open>pd.concat([df, pd.DataFrame([student_data])], ignore_index=True)\<close>: the rows of \<open>df\<close>
  followed by the new row; the columns of \<open>df\<close> followed by the keys of the new row that
  \<open>df\<close> does not have yet.
\<close>

definition concat_row :: "dataframe \<Rightarrow> student_data \<Rightarrow> dataframe" where
  "concat_row df student =
     \<lparr>columns = columns df @ filter (\<lambda>c. c \<notin> set (columns df)) required_columns,
      rows = rows df @ [student]\<rparr>"

subsection \<open>The files\<close>

text \<open>
  The world the store works in: the content of \<^verbatim>\<open>assets/student_database.csv\<close> (\<open>None\<close>
  when the file does not exist), the error that a write of this file raises (\<open>None\<close> when
  writing succeeds), the names of the files present in the temporary directory, and the
  error that \<open>os.remove\<close> raises on a file of that directory (\<open>None\<close> when it succeeds).
  The CSV reader and writer of pandas are parameters of the operations:
  \<open>read_csv\<close> returns the table or the error it raises, \<open>to_csv\<close> the text of a table.
\<close>

record ('c, 'e) world =
  db_file :: "'c option"
  write_failure :: "'e option"
  temp_files :: "string set"
  remove_failure :: "'e option"

text \<open>
  What \<open>st.error\<close> shows. \<open>df['roll_number']\<close> raises a \<open>KeyError\<close> naming the column when
  the table has no such column; the handlers of \<open>save_to_database\<close> and
  \<open>delete_from_database\<close> report it like any other exception.
\<close>

datatype 'e message =
    ErrorLoading 'e
  | ErrorSaving 'e
  | ErrorDeleting 'e
  | KeyErrorSaving string
  | KeyErrorDeleting string

definition write_db :: "('c, 'e) world \<Rightarrow> 'c \<Rightarrow> 'e + ('c, 'e) world" where
  "write_db w c =
     (case write_failure w of
        Some e \<Rightarrow> Inl e
      | None \<Rightarrow> Inr (w\<lparr>db_file := Some c\<rparr>))"

subsection \<open>load_database\<close>

definition load_database ::
  "('c \<Rightarrow> 'e + dataframe) \<Rightarrow> (dataframe \<Rightarrow> 'c) \<Rightarrow> ('c, 'e) world
     \<Rightarrow> dataframe \<times> ('c, 'e) world \<times> 'e message list" where
  "load_database read_csv to_csv w =
     (case db_file w of
        Some c \<Rightarrow>
          (case read_csv c of
             Inr df \<Rightarrow> (df, w, [])
           | Inl e \<Rightarrow> (empty_frame, w, [ErrorLoading e]))
      | None \<Rightarrow>
          (case write_db w (to_csv empty_frame) of
             Inr w' \<Rightarrow> (empty_frame, w', [])
           | Inl e \<Rightarrow> (empty_frame, w, [ErrorLoading e])))"

subsection \<open>save_to_database\<close>

text \<open>
  Lines 54 to 58: the table that \<open>save_to_database\<close> writes, from the table it loaded, when
  the loaded table has a \<open>roll_number\<close> column.
\<close>

definition upsert_frame :: "dataframe \<Rightarrow> student_data \<Rightarrow> dataframe" where
  "upsert_frame df student =
     (let df' =
        (if rows (select_rows (\<lambda>r. py_eq (roll_number r) (roll_number student)) df) \<noteq> []
         then select_rows (\<lambda>r. py_ne (roll_number r) (roll_number student)) df
         else df)
      in concat_row df' student)"

definition save_to_database ::
  "('c \<Rightarrow> 'e + dataframe) \<Rightarrow> (dataframe \<Rightarrow> 'c) \<Rightarrow> student_data \<Rightarrow> ('c, 'e) world
     \<Rightarrow> bool \<times> ('c, 'e) world \<times> 'e message list" where
  "save_to_database read_csv to_csv student w =
     (case load_database read_csv to_csv w of
        (df, w1, msgs) \<Rightarrow>
          (if ''roll_number'' \<notin> set (columns df)
           then (False, w1, msgs @ [KeyErrorSaving ''roll_number''])
           else
             (case write_db w1 (to_csv (upsert_frame df student)) of
                Inr w2 \<Rightarrow> (True, w2, msgs)
              | Inl e \<Rightarrow> (False, w1, msgs @ [ErrorSaving e]))))"

subsection \<open>delete_from_database\<close>

text \<open>\<open>str\<close> of a cell, as the f-string of the file name formats it.\<close>

fun digit_char :: "nat \<Rightarrow> char" where
  "digit_char n = ''0123456789'' ! n"

fun nat_str :: "nat \<Rightarrow> string" where
  "nat_str n = (if n < 10 then [digit_char n] else nat_str (n div 10) @ [digit_char (n mod 10)])"

definition int_str :: "int \<Rightarrow> string" where
  "int_str i = (if i < 0 then CHR ''-'' # nat_str (nat (- i)) else nat_str (nat i))"

fun cell_str :: "cell \<Rightarrow> string" where
  "cell_str (Str s) = s"
| "cell_str (Num i) = int_str i"
| "cell_str NaN = ''nan''"

definition pdf_name :: "cell \<Rightarrow> cell \<Rightarrow> string" where
  "pdf_name roll ticket = ''hall_ticket_'' @ cell_str roll @ ''_'' @ cell_str ticket @ ''.pdf''"

text \<open>
  Line 72: the rows that stay, when the loaded table has the two columns. The line reads
  the column \<open>roll_number\<close> first and the column \<open>hall_ticket_id\<close> second.
\<close>

definition delete_frame :: "dataframe \<Rightarrow> cell \<Rightarrow> cell \<Rightarrow> dataframe" where
  "delete_frame df roll ticket =
     select_rows (\<lambda>r. py_ne (roll_number r) roll \<or> py_ne (hall_ticket_id r) ticket) df"

definition delete_from_database ::
  "('c \<Rightarrow> 'e + dataframe) \<Rightarrow> (dataframe \<Rightarrow> 'c) \<Rightarrow> cell \<Rightarrow> cell \<Rightarrow> ('c, 'e) world
     \<Rightarrow> bool \<times> ('c, 'e) world \<times> 'e message list" where
  "delete_from_database read_csv to_csv roll ticket w =
     (case load_database read_csv to_csv w of
        (df, w1, msgs) \<Rightarrow>
          (if ''roll_number'' \<notin> set (columns df)
           then (False, w1, msgs @ [KeyErrorDeleting ''roll_number''])
           else if ''hall_ticket_id'' \<notin> set (columns df)
           then (False, w1, msgs @ [KeyErrorDeleting ''hall_ticket_id''])
           else
             (case write_db w1 (to_csv (delete_frame df roll ticket)) of
                Inl e \<Rightarrow> (False, w1, msgs @ [ErrorDeleting e])
              | Inr w2 \<Rightarrow>
                  (let pdf_path = pdf_name roll ticket
                   in if pdf_path \<in> temp_files w2
                      then (case remove_failure w2 of
                              Some e \<Rightarrow> (False, w2, msgs @ [ErrorDeleting e])
                            | None \<Rightarrow>
                                (True, w2\<lparr>temp_files := temp_files w2 - {pdf_path}\<rparr>, msgs))
                      else (True, w2, msgs)))))"

section \<open>The code payload\<close>

subsection \<open>create_scannable_qr_data\<close>

definition create_scannable_qr_data :: "cell \<Rightarrow> cell \<Rightarrow> string" where
  "create_scannable_qr_data ticket roll = cell_str ticket @ '':'' @ cell_str roll"

subsection \<open>Decoding in create_qr_download_endpoint\<close>

text \<open>
  \<open>s.split(sep)\<close> for a separator of one character: the pieces between the occurrences of
  the separator, one more piece than there are occurrences.
\<close>

fun split_on :: "char \<Rightarrow> string \<Rightarrow> string list" where
  "split_on c [] = [[]]"
| "split_on c (x # xs) =
     (if x = c then [] # split_on c xs
      else (case split_on c xs of
              p # ps \<Rightarrow> (x # p) # ps
            | [] \<Rightarrow> [[x]]))"

datatype notice =
    QrProcessed string string
  | InvalidQr

text \<open>
  Lines 347 to 353, run when the form is submitted: from the two fields typed in and the
  field of the scanned data, the ticket id and roll number that the lookup goes on with,
  and what is shown to the user. The assignment to two names raises when the split does
  not give exactly two pieces, before either name is bound; the bare \<open>except\<close> reports it.
\<close>

definition create_qr_download_endpoint_decode ::
  "string \<Rightarrow> string \<Rightarrow> string \<Rightarrow> (string \<times> string) \<times> notice list" where
  "create_qr_download_endpoint_decode hall_ticket roll qr_data =
     (if qr_data \<noteq> [] then
        (case split_on CHR '':'' qr_data of
           [h, r] \<Rightarrow> ((h, r), [QrProcessed h r])
         | _ \<Rightarrow> ((hall_ticket, roll), [InvalidQr]))
      else ((hall_ticket, roll), []))"

text \<open>
  The decoding as the specification words it: the token is cut at its first colon.
  \<open>None\<close> when the token has no colon.
\<close>

definition decode_first_colon :: "string \<Rightarrow> (string \<times> string) option" where
  "decode_first_colon token =
     (if CHR '':'' \<in> set token
      then Some (takeWhile (\<lambda>x. x \<noteq> CHR '':'') token,
                 tl (dropWhile (\<lambda>x. x \<noteq> CHR '':'') token))
      else None)"

section \<open>The renderer\<close>

subsection \<open>The subjects of a record\<close>

text \<open>
  \<open>str.strip()\<close> removes the white space of both ends. A character stands for a code point
  below 256; these are the ones \<open>str.isspace\<close> accepts there.
\<close>

definition isspace :: "char \<Rightarrow> bool" where
  "isspace c = (of_char c \<in> {9, 10, 11, 12, 13, 28, 29, 30, 31, 32, 133, 160 :: nat})"

definition strip :: "string \<Rightarrow> string" where
  "strip s = rev (dropWhile isspace (rev (dropWhile isspace s)))"

text \<open>
  Lines 227 to 234. \<open>ast.literal_eval\<close> belongs to the Python library and is a parameter:
  it returns the value of the text, or \<open>None\<close> when it raises.
\<close>

definition normalize_subjects :: "(string \<Rightarrow> pyval option) \<Rightarrow> pyval \<Rightarrow> pyval" where
  "normalize_subjects literal_eval subjects' =
     (case subjects' of
        PStr text \<Rightarrow>
          (case literal_eval text of
             Some v \<Rightarrow> v
           | None \<Rightarrow>
               PList (map (\<lambda>s. PStr (strip s))
                        (filter (\<lambda>s. strip s \<noteq> []) (split_on CHR '','' text))))
      | _ \<Rightarrow> subjects')"

subsection \<open>The name column of the subjects table\<close>

definition dict_get :: "(string \<times> pyval) list \<Rightarrow> string \<Rightarrow> pyval \<Rightarrow> pyval" where
  "dict_get d k default' = (case map_of d k of Some v \<Rightarrow> v | None \<Rightarrow> default')"

text \<open>
  Lines 255 to 274, one turn of the loop: the text drawn at 6 cm, the name column, for a
  subject whose row is drawn to its end, or what stops the render. For a dictionary the
  code is drawn first (line 263), then the name (lines 266 to 269), then the date
  (line 271), and \<open>drawString\<close> raises on a value that is not a string.
  \<open>CodeNotString\<close>, \<open>NameNotString\<close>, \<open>DateNotString\<close>: that entry of the dictionary is not
  a string, so its drawing (for the name also \<open>len\<close> or the concatenation) raises, in this
  order, and \<open>generate_hall_ticket_pdf\<close> returns no document.
  \<open>ReprOfSequence\<close>: the subject is a list or a tuple, drawn as Python's \<open>repr\<close> of it,
  which this development does not compute.
\<close>

datatype name_error = CodeNotString | NameNotString | DateNotString | ReprOfSequence

fun subject_name_text :: "pyval \<Rightarrow> name_error + string" where
  "subject_name_text (PDict subject) =
     (case dict_get subject ''code'' (PStr []) of
        PStr subject_code \<Rightarrow>
          (case dict_get subject ''name'' (PStr []) of
             PStr subject_name \<Rightarrow>
               (case dict_get subject ''date'' (PStr []) of
                  PStr subject_date \<Rightarrow>
                    Inr (if length subject_name > 40 then take 37 subject_name @ ''...''
                         else subject_name)
                | _ \<Rightarrow> Inl DateNotString)
           | _ \<Rightarrow> Inl NameNotString)
      | _ \<Rightarrow> Inl CodeNotString)"
| "subject_name_text (PStr s) = Inr s"
| "subject_name_text (PInt i) = Inr (int_str i)"
| "subject_name_text PNone = Inr ''None''"
| "subject_name_text (PList xs) = Inl ReprOfSequence"
| "subject_name_text (PTuple xs) = Inl ReprOfSequence"

section \<open>The QR image\<close>

text \<open>
  Lines 108 to 127. The libraries are parameters: \<open>make_qr\<close> stands for building the code
  and its image (lines 110 to 118), \<open>resize\<close> for \<open>img.resize((size, size))\<close>, \<open>new_white\<close>
  for \<open>Image.new('RGB', (size, size), color='white')\<close>, each giving the image or the
  exception it raises. The size is any integer. The result is the image returned, or the
  exception that leaves the function, and what is shown to the user: the fallback image is
  made inside the handler, so an exception of \<open>Image.new\<close> is not caught.
\<close>

datatype 'e qr_message = ErrorGeneratingQr 'e

definition generate_qr_code ::
  "(string \<Rightarrow> 'e + 'img) \<Rightarrow> ('img \<Rightarrow> int \<times> int \<Rightarrow> 'e + 'img) \<Rightarrow> (int \<times> int \<Rightarrow> 'e + 'img)
     \<Rightarrow> string \<Rightarrow> int \<Rightarrow> ('e + 'img) \<times> 'e qr_message list" where
  "generate_qr_code make_qr resize new_white data size' =
     (case make_qr data of
        Inl e \<Rightarrow> (new_white (size', size'), [ErrorGeneratingQr e])
      | Inr img \<Rightarrow>
          (case resize img (size', size') of
             Inl e \<Rightarrow> (new_white (size', size'), [ErrorGeneratingQr e])
           | Inr img' \<Rightarrow> (Inr img', [])))"

section \<open>Sample data\<close>

text \<open>Records as the form builds them, a store holding two of them, and its files.\<close>

definition sample_subjects :: "pyval list" where
  "sample_subjects =
     [PDict [(''code'', PStr ''C1''), (''name'', PStr ''Intro''), (''date'', PStr ''01-05-2024'')]]"

definition student_r100 :: student_data where
  "student_r100 =
     \<lparr>id' = Str ''u-1'', name = Str ''A Kumar'', roll_number = Str ''R100'',
      program = Str ''BBA'', semester = Str ''1st'', exam_date = Str ''01-05-2024'',
      seat_number = Str ''S1'', hall_ticket_id = Str ''AB12CD34'',
      subjects = PList sample_subjects\<rparr>"

definition student_r100_again :: student_data where
  "student_r100_again =
     \<lparr>id' = Str ''u-3'', name = Str ''B Kumar'', roll_number = Str ''R100'',
      program = Str ''BBA'', semester = Str ''2nd'', exam_date = Str ''01-11-2024'',
      seat_number = Str ''S7'', hall_ticket_id = Str ''EF56AB78'',
      subjects = PList sample_subjects\<rparr>"

definition student_r200 :: student_data where
  "student_r200 =
     \<lparr>id' = Str ''u-2'', name = Str ''C Rao'', roll_number = Str ''R200'',
      program = Str ''MBA'', semester = Str ''3rd'', exam_date = Str ''02-05-2024'',
      seat_number = Str ''S2'', hall_ticket_id = Str ''0A1B2C3D'',
      subjects = PStr ''a,b,c''\<rparr>"

text \<open>A second row of roll number R100 with another ticket, as a hand-edited store can hold.\<close>

definition student_r100_other_ticket :: student_data where
  "student_r100_other_ticket = student_r100\<lparr>id' := Str ''u-4'', hall_ticket_id := Str ''99999999''\<rparr>"

text \<open>
  In the sample worlds the content of the store file is the table itself: \<open>Inr\<close> reads it
  and \<open>id\<close> writes it. \<open>read_csv_fails\<close> is a reader that raises on every content.
\<close>

definition read_csv_fails :: "dataframe \<Rightarrow> string + dataframe" where
  "read_csv_fails c = Inl ''ParserError''"

definition sample_world :: "(dataframe, string) world" where
  "sample_world =
     \<lparr>db_file = Some \<lparr>columns = required_columns,
                        rows = [student_r100, student_r200, student_r100_other_ticket]\<rparr>,
      write_failure = None,
      temp_files = {''hall_ticket_R100_AB12CD34.pdf'', ''hall_ticket_R200_0A1B2C3D.pdf''},
      remove_failure = None\<rparr>"

definition absent_world :: "(dataframe, string) world" where
  "absent_world =
     \<lparr>db_file = None, write_failure = None, temp_files = {}, remove_failure = None\<rparr>"

definition readonly_world :: "(dataframe, string) world" where
  "readonly_world =
     \<lparr>db_file = None, write_failure = Some ''PermissionError'', temp_files = {},
      remove_failure = None\<rparr>"

text \<open>
  Three values of \<open>ast.literal_eval\<close>: the text that \<open>str\<close> gives for the sample subjects
  evaluates to them; \<open>0x10,2\<close> is a tuple of two integer literals; \<open>a, b ,,c\<close> is no
  expression, so the function raises. No other text is used with this table.
\<close>

definition sample_subjects_text :: string where
  "sample_subjects_text = ''[{'code': 'C1', 'name': 'Intro', 'date': '01-05-2024'}]''"

definition literal_eval_sample :: "string \<Rightarrow> pyval option" where
  "literal_eval_sample text =
     (if text = sample_subjects_text then Some (PList sample_subjects)
      else if text = ''0x10,2'' then Some (PTuple [PInt 16, PInt 2])
      else None)"

text \<open>
  An image reduced to its width, its height and whether it is blank, with a code builder
  that raises on data beyond the capacity of a code, a resize that raises unless both sides
  are positive, and a new image that raises on a negative side, as \<open>Image.new\<close> does.
\<close>

definition sample_make_qr :: "string \<Rightarrow> string + int \<times> int \<times> bool" where
  "sample_make_qr data =
     (if 1273 < length data then Inl ''DataOverflowError'' else Inr (290, 290, False))"

definition sample_resize :: "int \<times> int \<times> bool \<Rightarrow> int \<times> int \<Rightarrow> string + int \<times> int \<times> bool" where
  "sample_resize img sz =
     (if fst sz \<le> 0 \<or> snd sz \<le> 0 then Inl ''ValueError''
      else Inr (fst sz, snd sz, snd (snd img)))"

definition sample_new_white :: "int \<times> int \<Rightarrow> string + int \<times> int \<times> bool" where
  "sample_new_white sz =
     (if fst sz < 0 \<or> snd sz < 0 then Inl ''ValueError'' else Inr (fst sz, snd sz, True))"

definition sample_img_size :: "int \<times> int \<times> bool \<Rightarrow> int \<times> int" where
  "sample_img_size img = (fst img, fst (snd img))"

text \<open>
  A reader and writer for the store file that show the types pandas gives to the
  \<open>roll_number\<close> column. The content of the file stands for the table as written, and
  reading it infers the type of the column as \<open>pd.read_csv\<close> does without a \<open>dtype\<close>: when
  every cell of the column is a decimal numeral the column is read as integers, otherwise
  as strings, an empty cell as the missing value. The other columns are left as written,
  and so are strings that pandas takes for floats, booleans or missing values: no example
  has them.
\<close>

definition is_decimal :: "string \<Rightarrow> bool" where
  "is_decimal s = (s \<noteq> [] \<and> list_all (\<lambda>c. c \<in> set ''0123456789'') s)"

definition decimal_value :: "string \<Rightarrow> nat" where
  "decimal_value s = foldl (\<lambda>n c. 10 * n + (of_char c - 48)) 0 s"

fun reads_as_integer :: "cell \<Rightarrow> bool" where
  "reads_as_integer (Str s) = is_decimal s"
| "reads_as_integer (Num i) = True"
| "reads_as_integer NaN = False"

fun integer_read :: "cell \<Rightarrow> cell" where
  "integer_read (Str s) = Num (int (decimal_value s))"
| "integer_read c = c"

fun string_read :: "cell \<Rightarrow> cell" where
  "string_read (Str s) = (if s = [] then NaN else Str s)"
| "string_read (Num i) = Str (int_str i)"
| "string_read NaN = NaN"

definition read_csv_inferring :: "dataframe \<Rightarrow> string + dataframe" where
  "read_csv_inferring c =
     Inr (if list_all (\<lambda>r. reads_as_integer (roll_number r)) (rows c)
          then c\<lparr>rows := map (\<lambda>r. r\<lparr>roll_number := integer_read (roll_number r)\<rparr>) (rows c)\<rparr>
          else c\<lparr>rows := map (\<lambda>r. r\<lparr>roll_number := string_read (roll_number r)\<rparr>) (rows c)\<rparr>)"

text \<open>Two submissions of the form for the roll number 101.\<close>

definition student_101 :: student_data where
  "student_101 = student_r100\<lparr>roll_number := Str ''101''\<rparr>"

definition student_101_again :: student_data where
  "student_101_again = student_r100_again\<lparr>roll_number := Str ''101''\<rparr>"

text \<open>
  The store after the first of them, with its rendered document; a store whose table was
  edited by hand and has lost the \<open>roll_number\<close> column, and one that has lost the
  \<open>hall_ticket_id\<close> column; a world where the documents cannot be removed.
\<close>

definition world_101 :: "(dataframe, string) world" where
  "world_101 =
     \<lparr>db_file = Some \<lparr>columns = required_columns, rows = [student_101]\<rparr>,
      write_failure = None,
      temp_files = {''hall_ticket_101_AB12CD34.pdf''},
      remove_failure = None\<rparr>"




section \<open>The record store: properties\<close>

lemma rows_upsert_frame:
  "rows (upsert_frame df student) =
     filter (\<lambda>r. py_ne (roll_number r) (roll_number student)) (rows df) @ [student]"
proof (cases "filter (\<lambda>r. py_eq (roll_number r) (roll_number student)) (rows df) = []")
  case True
  then have "\<forall>r \<in> set (rows df). py_ne (roll_number r) (roll_number student)"
    by (simp add: filter_empty_conv py_ne_def)
  then have "filter (\<lambda>r. py_ne (roll_number r) (roll_number student)) (rows df) = rows df"
    by simp
  with True show ?thesis
    by (simp add: upsert_frame_def select_rows_def concat_row_def)
next
  case False
  then show ?thesis
    by (simp add: upsert_frame_def select_rows_def concat_row_def)
qed

lemma py_eq_refl: "c \<noteq> NaN \<Longrightarrow> py_eq c c"
  by (cases c) simp_all

lemma load_database_write_failure:
  "write_failure (fst (snd (load_database rd wr w))) = write_failure w"
  by (simp add: load_database_def write_db_def split: option.splits sum.splits)

lemma load_database_temp_files:
  "temp_files (fst (snd (load_database rd wr w))) = temp_files w"
  by (simp add: load_database_def write_db_def split: option.splits sum.splits)

lemma load_database_remove_failure:
  "remove_failure (fst (snd (load_database rd wr w))) = remove_failure w"
  by (simp add: load_database_def write_db_def split: option.splits sum.splits)

text \<open>
  \<open>save_to_database\<close> in terms of what \<open>load_database\<close> gave: it succeeds exactly when the
  loaded table has the \<open>roll_number\<close> column and the store file can be written, and then
  writes the upserted table; otherwise the world is as \<open>load_database\<close> left it.
\<close>

lemma save_to_database_succeeds:
  assumes "write_failure w = None"
    and "''roll_number'' \<in> set (columns (fst (load_database rd wr w)))"
  shows "save_to_database rd wr student w =
           (True,
            (fst (snd (load_database rd wr w)))
              \<lparr>db_file := Some (wr (upsert_frame (fst (load_database rd wr w)) student))\<rparr>,
            snd (snd (load_database rd wr w)))"
proof -
  obtain df w1 msgs where l: "load_database rd wr w = (df, w1, msgs)"
    by (cases "load_database rd wr w") auto
  with assms load_database_write_failure [of rd wr w]
  have "write_failure w1 = None" and "''roll_number'' \<in> set (columns df)"
    by simp_all
  with l show ?thesis
    by (simp add: save_to_database_def write_db_def)
qed


text \<open>
  \<open>delete_from_database\<close> likewise: when the loaded table has the two columns and the store
  file can be written, the filtered table is written; the document is then removed if it
  is there, unless its removal raises.
\<close>

lemma delete_from_database_succeeds:
  assumes "write_failure w = None"
    and "''roll_number'' \<in> set (columns (fst (load_database rd wr w)))"
    and "''hall_ticket_id'' \<in> set (columns (fst (load_database rd wr w)))"
    and "pdf_name roll ticket \<in> temp_files w \<longrightarrow> remove_failure w = None"
  shows "delete_from_database rd wr roll ticket w =
           (True,
            (fst (snd (load_database rd wr w)))
              \<lparr>db_file := Some (wr (delete_frame (fst (load_database rd wr w)) roll ticket)),
               temp_files := temp_files w - {pdf_name roll ticket}\<rparr>,
            snd (snd (load_database rd wr w)))"
proof -
  obtain df w1 msgs where l: "load_database rd wr w = (df, w1, msgs)"
    by (cases "load_database rd wr w") auto
  with assms load_database_write_failure [of rd wr w] load_database_temp_files [of rd wr w]
    load_database_remove_failure [of rd wr w]
  have "write_failure w1 = None" and "temp_files w1 = temp_files w"
    and "''roll_number'' \<in> set (columns df)" and "''hall_ticket_id'' \<in> set (columns df)"
    and "pdf_name roll ticket \<in> temp_files w \<longrightarrow> remove_failure w1 = None"
    by simp_all
  with l show ?thesis
    by (auto simp add: delete_from_database_def write_db_def Let_def insert_absorb)
qed



lemmas sample_defs =
  sample_world_def absent_world_def readonly_world_def student_r100_def
  student_r100_again_def student_r200_def student_r100_other_ticket_def
  read_csv_fails_def

lemmas sample_101_defs =
  world_101_def student_101_def student_101_again_def read_csv_inferring_def
  is_decimal_def decimal_value_def int_str_def

text \<open>
  What holds of every table: after \<open>save_to_database\<close> of a record whose roll number is not
  the missing value, on a store file that can be written and a loaded table with its
  \<open>roll_number\<close> column, the table written has exactly one row whose roll number is equal,
  as pandas compares cells, to the record's, and this row is the record.
\<close>

lemma save_to_database_one_equal_row:
  assumes "write_failure w = None" and "roll_number student \<noteq> NaN"
    and "''roll_number'' \<in> set (columns (fst (load_database rd wr w)))"
  shows "fst (save_to_database rd wr student w) \<and>
         db_file (fst (snd (save_to_database rd wr student w))) =
           Some (wr (upsert_frame (fst (load_database rd wr w)) student)) \<and>
         filter (\<lambda>r. py_eq (roll_number r) (roll_number student))
           (rows (upsert_frame (fst (load_database rd wr w)) student)) = [student]"
  using assms
  by (simp add: save_to_database_succeeds rows_upsert_frame py_ne_def py_eq_refl)

text \<open>
  C1. The claim: after \<open>save_to_database\<close> of a record the store has exactly one row of the
  record's roll number, with the new field values, an earlier row of that roll number
  being replaced. The code does not do so for a roll number written in digits. The first
  submission for 101 writes one row. At the second submission the store is read back with
  an integer column, the integer 101 is not equal to the string of the form, no row is
  taken out, and the store then holds two rows whose roll number is written 101: the
  earlier one, with the earlier name and ticket, and the new one.
\<close>

theorem save_to_database_keeps_numeric_roll_number:
  "save_to_database read_csv_inferring id student_101 absent_world =
     (True,
      absent_world\<lparr>db_file := Some \<lparr>columns = required_columns, rows = [student_101]\<rparr>\<rparr>,
      []) \<and>
   save_to_database read_csv_inferring id student_101_again
       (absent_world\<lparr>db_file := Some \<lparr>columns = required_columns, rows = [student_101]\<rparr>\<rparr>) =
     (True,
      absent_world\<lparr>db_file :=
        Some \<lparr>columns = required_columns,
              rows = [student_101\<lparr>roll_number := Num 101\<rparr>, student_101_again]\<rparr>\<rparr>,
      []) \<and>
   cell_str (Num 101) = ''101'' \<and>
   cell_str (roll_number student_101_again) = ''101'' \<and>
   name (student_101\<lparr>roll_number := Num 101\<rparr>) = Str ''A Kumar'' \<and>
   name student_101_again = Str ''B Kumar''"
  by (simp add: save_to_database_def load_database_def write_db_def upsert_frame_def
      select_rows_def concat_row_def empty_frame_def required_columns_def
      sample_101_defs sample_defs)

text \<open>
  What holds of every table: when the loaded table has the two columns, the store file can
  be written and the document can be removed, \<open>delete_from_database\<close> writes the loaded
  table without the rows whose roll number and ticket id are both equal, as pandas
  compares cells, to the ones given; the other rows stay in their order, and the columns
  stay.
\<close>

lemma delete_from_database_filters:
  assumes "write_failure w = None"
    and "''roll_number'' \<in> set (columns (fst (load_database rd wr w)))"
    and "''hall_ticket_id'' \<in> set (columns (fst (load_database rd wr w)))"
    and "pdf_name roll ticket \<in> temp_files w \<longrightarrow> remove_failure w = None"
  shows "fst (delete_from_database rd wr roll ticket w) \<and>
         db_file (fst (snd (delete_from_database rd wr roll ticket w))) =
           Some (wr (delete_frame (fst (load_database rd wr w)) roll ticket)) \<and>
         rows (delete_frame df roll ticket) =
           filter (\<lambda>r. \<not> (py_eq (roll_number r) roll \<and> py_eq (hall_ticket_id r) ticket))
             (rows df) \<and>
         columns (delete_frame df roll ticket) = columns df"
  using assms
  by (simp add: delete_from_database_succeeds delete_frame_def select_rows_def py_ne_def)

text \<open>
  A store that cannot be read loses all its rows: \<open>load_database\<close> reports the error and
  gives the empty table, which \<open>delete_from_database\<close> then writes over the file,
  returning \<open>True\<close>, whatever roll number and ticket id it was given.
\<close>

lemma delete_from_database_unreadable_store:
  "delete_from_database read_csv_fails id (Str ''R999'') (Str ''00000000'') sample_world =
     (True, sample_world\<lparr>db_file := Some empty_frame\<rparr>, [ErrorLoading ''ParserError''])"
  by (simp add: delete_from_database_def load_database_def write_db_def delete_frame_def
      select_rows_def empty_frame_def required_columns_def pdf_name_def sample_defs)

text \<open>
  C2. The claim: \<open>delete_from_database\<close> with roll number R and ticket id T removes from the
  store exactly the rows of roll number R and ticket id T. The code does not do so for a
  roll number written in digits. The store holds one row, of roll number 101 and ticket
  AB12CD34, written by the form; it is read back with an integer column, the integer 101
  differs from the string 101 that the form passes, the row stays in the table written,
  and the function returns \<open>True\<close> after removing the document of that row.
\<close>

theorem delete_from_database_keeps_numeric_roll_number:
  "delete_from_database read_csv_inferring id (Str ''101'') (Str ''AB12CD34'') world_101 =
     (True,
      world_101\<lparr>db_file :=
                  Some \<lparr>columns = required_columns,
                        rows = [student_101\<lparr>roll_number := Num 101\<rparr>]\<rparr>,
                temp_files := {}\<rparr>,
      []) \<and>
   cell_str (roll_number (student_101\<lparr>roll_number := Num 101\<rparr>)) = ''101'' \<and>
   hall_ticket_id (student_101\<lparr>roll_number := Num 101\<rparr>) = Str ''AB12CD34'' \<and>
   pdf_name (Str ''101'') (Str ''AB12CD34'') = ''hall_ticket_101_AB12CD34.pdf''"
  by (simp add: delete_from_database_def load_database_def write_db_def delete_frame_def
      select_rows_def required_columns_def pdf_name_def py_ne_def sample_101_defs sample_defs)





text \<open>
  C7. \<open>load_database\<close> returns the table read from the store file when the file exists and
  can be read. When the file does not exist, it writes a table with the nine fixed columns
  and no row, and returns that table. When reading raises, it reports the error and
  returns the table with the nine columns and no row; so it does when the missing file
  cannot be created. It returns in every case.
\<close>

theorem load_database_cases:
  "(db_file w = Some c \<and> rd c = Inr df \<longrightarrow> load_database rd wr w = (df, w, [])) \<and>
   (db_file w = Some c \<and> rd c = Inl e \<longrightarrow>
      load_database rd wr w = (empty_frame, w, [ErrorLoading e])) \<and>
   (db_file w = None \<and> write_failure w = None \<longrightarrow>
      load_database rd wr w = (empty_frame, w\<lparr>db_file := Some (wr empty_frame)\<rparr>, [])) \<and>
   (db_file w = None \<and> write_failure w = Some e \<longrightarrow>
      load_database rd wr w = (empty_frame, w, [ErrorLoading e])) \<and>
   rows empty_frame = [] \<and>
   columns empty_frame =
     [''id'', ''name'', ''roll_number'', ''program'', ''semester'',
      ''exam_date'', ''seat_number'', ''hall_ticket_id'', ''subjects'']"
  by (simp add: load_database_def write_db_def empty_frame_def required_columns_def)

theorem load_database_cases_witness:
  "db_file absent_world = None \<and> write_failure absent_world = None \<and>
   load_database Inr id absent_world =
     (empty_frame, absent_world\<lparr>db_file := Some empty_frame\<rparr>, []) \<and>
   db_file readonly_world = None \<and> write_failure readonly_world = Some ''PermissionError'' \<and>
   load_database Inr id readonly_world =
     (empty_frame, readonly_world, [ErrorLoading ''PermissionError'']) \<and>
   db_file sample_world = Some (the (db_file sample_world)) \<and>
   load_database Inr id sample_world = (the (db_file sample_world), sample_world, []) \<and>
   read_csv_fails (the (db_file sample_world)) = Inl ''ParserError'' \<and>
   load_database read_csv_fails id sample_world =
     (empty_frame, sample_world, [ErrorLoading ''ParserError''])"
  using load_database_cases [of absent_world _ Inr _ id]
    load_database_cases [of readonly_world _ Inr _ id "''PermissionError''"]
    load_database_cases [of sample_world "the (db_file sample_world)" Inr
      "the (db_file sample_world)" id]
    load_database_cases [of sample_world "the (db_file sample_world)" read_csv_fails _ id
      "''ParserError''"]
  by (simp add: sample_defs)

section \<open>The code payload: properties\<close>

lemma split_on_no_sep: "c \<notin> set s \<Longrightarrow> split_on c s = [s]"
  by (induction s) auto

lemma split_on_append: "c \<notin> set a \<Longrightarrow> split_on c (a @ c # b) = a # split_on c b"
  by (induction a) auto

lemma split_on_not_Nil: "split_on c s \<noteq> []"
  by (induction s) (auto split: list.splits)

lemma length_split_on: "length (split_on c s) = Suc (count_list s c)"
  by (induction s) (auto split: list.splits simp: split_on_not_Nil)

lemma split_on_one_sep:
  assumes "count_list s c = 1"
  shows "split_on c s = [takeWhile (\<lambda>x. x \<noteq> c) s, tl (dropWhile (\<lambda>x. x \<noteq> c) s)]"
proof -
  from assms have "c \<in> set s"
    by (metis count_list_0_iff zero_neq_one)
  then obtain a b where s: "s = a @ c # b" and a: "c \<notin> set a"
    by (meson split_list_first)
  with assms have "count_list b c = 0"
    by (simp add: count_list_0_iff)
  then have b: "c \<notin> set b"
    by (simp add: count_list_0_iff)
  have "takeWhile (\<lambda>x. x \<noteq> c) (a @ c # b) = a"
    using a by (induction a) auto
  moreover have "dropWhile (\<lambda>x. x \<noteq> c) (a @ c # b) = c # b"
    using a by (induction a) auto
  ultimately have "takeWhile (\<lambda>x. x \<noteq> c) s = a" and "dropWhile (\<lambda>x. x \<noteq> c) s = c # b"
    unfolding s by simp_all
  with a b show ?thesis
    unfolding s by (simp add: split_on_append split_on_no_sep)
qed

lemma not_two_pieces: "length xs \<noteq> 2 \<Longrightarrow> (case xs of [h, r] \<Rightarrow> f h r | _ \<Rightarrow> g) = g"
  by (auto split: list.splits)

text \<open>
  C3. For a ticket id T and a roll number R without a colon, the payload is T, a colon, R,
  and decoding the payload gives back T and R, whatever was typed in the two other fields
  of the form.
\<close>

theorem qr_round_trip:
  assumes "CHR '':'' \<notin> set T" and "CHR '':'' \<notin> set R"
  shows "create_scannable_qr_data (Str T) (Str R) = T @ '':'' @ R \<and>
         create_qr_download_endpoint_decode h r (create_scannable_qr_data (Str T) (Str R)) =
           ((T, R), [QrProcessed T R])"
  using assms
  by (simp add: create_scannable_qr_data_def create_qr_download_endpoint_decode_def
      split_on_append split_on_no_sep)

theorem qr_round_trip_witness:
  "CHR '':'' \<notin> set ''AB12CD34'' \<and> CHR '':'' \<notin> set ''R100'' \<and>
   create_scannable_qr_data (Str ''AB12CD34'') (Str ''R100'') = ''AB12CD34:R100'' \<and>
   create_qr_download_endpoint_decode ''typed'' [] ''AB12CD34:R100'' =
     ((''AB12CD34'', ''R100''), [QrProcessed ''AB12CD34'' ''R100''])"
  using qr_round_trip [of "''AB12CD34''" "''R100''" "''typed''" "[]"]
  by (simp add: create_scannable_qr_data_def)

text \<open>
  C4, as the claim states it, fails: a token with two colons is not cut at its first colon
  into a ticket id and a roll number. The decoding reports it as invalid.
\<close>

theorem qr_decode_two_colons:
  "decode_first_colon ''AB12CD34:R:100'' = Some (''AB12CD34'', ''R:100'') \<and>
   create_qr_download_endpoint_decode [] [] ''AB12CD34:R:100'' = (([], []), [InvalidQr])"
  by (simp add: decode_first_colon_def create_qr_download_endpoint_decode_def)

text \<open>
  C4, amended. An empty token is no token: the typed fields are kept and nothing is
  reported. A token with exactly one colon is cut at it into ticket id and roll number,
  and this is reported as processed. Every other token, without a colon or with more than
  one, is reported as invalid and the typed fields are kept. The decoding returns in
  every case.
\<close>

theorem qr_decode_cases:
  "(q = [] \<longrightarrow> create_qr_download_endpoint_decode h r q = ((h, r), [])) \<and>
   (count_list q CHR '':'' = 1 \<longrightarrow>
      (\<exists>a b. decode_first_colon q = Some (a, b) \<and>
         create_qr_download_endpoint_decode h r q = ((a, b), [QrProcessed a b]))) \<and>
   (q \<noteq> [] \<and> count_list q CHR '':'' \<noteq> 1 \<longrightarrow>
      create_qr_download_endpoint_decode h r q = ((h, r), [InvalidQr]))"
proof (intro conjI impI)
  show "create_qr_download_endpoint_decode h r q = ((h, r), [])" if "q = []"
    using that by (simp add: create_qr_download_endpoint_decode_def)
next
  assume one: "count_list q CHR '':'' = 1"
  then have colon: "CHR '':'' \<in> set q"
    by (metis count_list_0_iff zero_neq_one)
  then have "q \<noteq> []" by auto
  with one colon
  show "\<exists>a b. decode_first_colon q = Some (a, b) \<and>
         create_qr_download_endpoint_decode h r q = ((a, b), [QrProcessed a b])"
    by (simp add: decode_first_colon_def create_qr_download_endpoint_decode_def split_on_one_sep)
next
  assume "q \<noteq> [] \<and> count_list q CHR '':'' \<noteq> 1"
  then have "q \<noteq> []" and "length (split_on CHR '':'' q) \<noteq> 2"
    by (simp_all add: length_split_on)
  then show "create_qr_download_endpoint_decode h r q = ((h, r), [InvalidQr])"
    by (simp add: create_qr_download_endpoint_decode_def not_two_pieces)
qed

theorem qr_decode_cases_witness:
  "create_qr_download_endpoint_decode ''T'' ''R'' [] = ((''T'', ''R''), []) \<and>
   count_list ''AB12CD34:R100'' CHR '':'' = 1 \<and>
   decode_first_colon ''AB12CD34:R100'' = Some (''AB12CD34'', ''R100'') \<and>
   create_qr_download_endpoint_decode ''T'' ''R'' ''AB12CD34:R100'' =
     ((''AB12CD34'', ''R100''), [QrProcessed ''AB12CD34'' ''R100'']) \<and>
   count_list ''AB12CD34'' CHR '':'' \<noteq> 1 \<and>
   create_qr_download_endpoint_decode ''T'' ''R'' ''AB12CD34'' = ((''T'', ''R''), [InvalidQr])"
  using qr_decode_cases [of "[]" "''T''" "''R''"]
    qr_decode_cases [of "''AB12CD34:R100''" "''T''" "''R''"]
    qr_decode_cases [of "''AB12CD34''" "''T''" "''R''"]
  by (simp add: decode_first_colon_def)

section \<open>The renderer: properties\<close>

text \<open>
  C5, as the claim states it, fails: the comma-separated string \<open>0x10,2\<close> is a Python
  expression, the literal evaluation accepts it, and the subjects become a tuple of two
  integers, drawn as 16 and 2, not the bare strings \<open>0x10\<close> and \<open>2\<close>.
\<close>

theorem normalize_subjects_integer_items:
  "literal_eval_sample ''0x10,2'' = Some (PTuple [PInt 16, PInt 2]) \<and>
   normalize_subjects literal_eval_sample (PStr ''0x10,2'') = PTuple [PInt 16, PInt 2] \<and>
   normalize_subjects literal_eval_sample (PStr ''0x10,2'') \<noteq> PList [PStr ''0x10'', PStr ''2''] \<and>
   map subject_name_text [PInt 16, PInt 2] = [Inr ''16'', Inr ''2'']"
  by (simp add: normalize_subjects_def literal_eval_sample_def sample_subjects_text_def
      int_str_def)

text \<open>
  C5, amended. A sequence is kept as it is. A string is given to the literal evaluation
  first: when this accepts the string, its value is the subjects, so the text of a sequence
  that evaluates to the sequence gives the same subjects as the sequence itself. Only a
  string that the literal evaluation rejects is cut at its commas, and the subjects are
  then the pieces with the white space of both ends removed, without the empty ones, as
  bare strings.
\<close>

theorem normalize_subjects_cases:
  "normalize_subjects lit (PList xs) = PList xs \<and>
   (lit s = Some v \<longrightarrow> normalize_subjects lit (PStr s) = v) \<and>
   (lit s = Some (PList xs) \<longrightarrow>
      normalize_subjects lit (PStr s) = normalize_subjects lit (PList xs)) \<and>
   (lit s = None \<longrightarrow>
      normalize_subjects lit (PStr s) =
        PList (map PStr (filter (\<lambda>x. x \<noteq> []) (map strip (split_on CHR '','' s)))))"
  by (simp add: normalize_subjects_def filter_map comp_def)

theorem normalize_subjects_cases_witness:
  "literal_eval_sample sample_subjects_text = Some (PList sample_subjects) \<and>
   normalize_subjects literal_eval_sample (PStr sample_subjects_text) = PList sample_subjects \<and>
   normalize_subjects literal_eval_sample (PList sample_subjects) = PList sample_subjects \<and>
   literal_eval_sample ''a, b ,,c'' = None \<and>
   normalize_subjects literal_eval_sample (PStr ''a, b ,,c'') =
     PList [PStr ''a'', PStr ''b'', PStr ''c'']"
  using normalize_subjects_cases
      [of literal_eval_sample sample_subjects sample_subjects_text "PList sample_subjects"]
    normalize_subjects_cases [of literal_eval_sample _ "''a, b ,,c''"]
  by (simp add: literal_eval_sample_def sample_subjects_text_def strip_def isspace_def)

text \<open>
  C6, as the claim states it, fails: a subject that is a bare string is drawn in the name
  column as it is, so a bare string of 41 characters is drawn with its 41 characters.
\<close>

theorem bare_subject_not_truncated:
  "subject_name_text (PStr (replicate 41 CHR ''x'')) = Inr (replicate 41 CHR ''x'') \<and>
   \<not> length (replicate 41 CHR ''x'') \<le> 40"
  by simp

text \<open>
  C6, amended. For a subject that is a dictionary whose code, name and date are strings, a
  name of more than 40 characters is drawn as its first 37 characters followed by three
  dots, and a name of at most 40 characters is drawn unchanged. Whenever the row of a
  dictionary is drawn, the name drawn has at most 40 characters. A subject that is a bare
  string is drawn unchanged, whatever its length.
\<close>

theorem subject_name_truncation:
  "(dict_get d ''code'' (PStr []) = PStr c \<and> dict_get d ''name'' (PStr []) = PStr n \<and>
    dict_get d ''date'' (PStr []) = PStr dt \<longrightarrow>
      subject_name_text (PDict d) =
        Inr (if 40 < length n then take 37 n @ ''...'' else n)) \<and>
   (subject_name_text (PDict d) = Inr t \<longrightarrow> length t \<le> 40) \<and>
   subject_name_text (PStr s) = Inr s"
  by (auto split: pyval.splits)

theorem subject_name_truncation_witness:
  "dict_get [(''code'', PStr ''C1''), (''name'', PStr (replicate 45 CHR ''n'')),
             (''date'', PStr ''01-05-2024'')] ''name'' (PStr [])
     = PStr (replicate 45 CHR ''n'') \<and>
   subject_name_text (PDict [(''code'', PStr ''C1''), (''name'', PStr (replicate 45 CHR ''n'')),
                             (''date'', PStr ''01-05-2024'')])
     = Inr (replicate 37 CHR ''n'' @ ''...'') \<and>
   length (replicate 37 CHR ''n'' @ ''...'') \<le> 40 \<and>
   dict_get [(''name'', PStr (replicate 40 CHR ''n''))] ''code'' (PStr []) = PStr [] \<and>
   subject_name_text (PDict [(''name'', PStr (replicate 40 CHR ''n''))])
     = Inr (replicate 40 CHR ''n'')"
  using subject_name_truncation
      [of "[(''code'', PStr ''C1''), (''name'', PStr (replicate 45 CHR ''n'')),
            (''date'', PStr ''01-05-2024'')]"
          "''C1''" "replicate 45 CHR ''n''" "''01-05-2024''"
          "replicate 37 CHR ''n'' @ ''...''"]
    subject_name_truncation
      [of "[(''name'', PStr (replicate 40 CHR ''n''))]" "[]" "replicate 40 CHR ''n''" "[]"
          "replicate 40 CHR ''n''"]
  by (simp add: dict_get_def)

section \<open>The QR image: properties\<close>

text \<open>
  C8, as the claim states it, fails: for the size -1 the resize raises, the handler asks
  for a new image of that size, which raises as well, and this exception leaves the
  function; no image is returned.
\<close>

theorem generate_qr_code_negative_size:
  "generate_qr_code sample_make_qr sample_resize sample_new_white ''AB12CD34:R100'' (- 1) =
     (Inl ''ValueError'', [ErrorGeneratingQr ''ValueError''])"
  by (simp add: generate_qr_code_def sample_make_qr_def sample_resize_def
      sample_new_white_def)

text \<open>
  C8, amended. Given that a resize which returns, and a new image which is made, have the
  size asked for: when the code is built and resized, \<open>generate_qr_code\<close> returns the resized
  image of the code, of the size asked for in width and height, and reports nothing. When
  building or resizing raises and the white image of that size can be made, it returns this
  white image, of the size asked for, and reports the error. When building or resizing
  raises and the white image cannot be made, as for a negative size, the error is reported
  and the exception of the new image leaves the function.
\<close>

theorem generate_qr_code_square:
  assumes "\<And>i sz i'. resize i sz = Inr i' \<Longrightarrow> img_size i' = sz"
    and "\<And>sz i. new_white sz = Inr i \<Longrightarrow> img_size i = sz"
  shows "(make_qr data = Inr img \<and> resize img (n, n) = Inr img' \<longrightarrow>
            generate_qr_code make_qr resize new_white data n = (Inr img', []) \<and>
            img_size img' = (n, n)) \<and>
         ((make_qr data = Inl e \<or> (make_qr data = Inr img \<and> resize img (n, n) = Inl e)) \<and>
          new_white (n, n) = Inr blank \<longrightarrow>
            generate_qr_code make_qr resize new_white data n =
              (Inr blank, [ErrorGeneratingQr e]) \<and>
            img_size blank = (n, n)) \<and>
         ((make_qr data = Inl e \<or> (make_qr data = Inr img \<and> resize img (n, n) = Inl e)) \<and>
          new_white (n, n) = Inl e' \<longrightarrow>
            generate_qr_code make_qr resize new_white data n =
              (Inl e', [ErrorGeneratingQr e]))"
  using assms
  by (auto simp add: generate_qr_code_def)

theorem generate_qr_code_square_witness:
  "sample_make_qr ''AB12CD34:R100'' = Inr (290, 290, False) \<and>
   sample_resize (290, 290, False) (200, 200) = Inr (200, 200, False) \<and>
   generate_qr_code sample_make_qr sample_resize sample_new_white ''AB12CD34:R100'' 200
     = (Inr (200, 200, False), []) \<and>
   sample_img_size (200, 200, False) = (200, 200) \<and>
   sample_resize (290, 290, False) (0, 0) = Inl ''ValueError'' \<and>
   sample_new_white (0, 0) = Inr (0, 0, True) \<and>
   generate_qr_code sample_make_qr sample_resize sample_new_white ''AB12CD34:R100'' 0
     = (Inr (0, 0, True), [ErrorGeneratingQr ''ValueError'']) \<and>
   sample_img_size (0, 0, True) = (0, 0) \<and>
   sample_make_qr (replicate 1274 CHR ''x'') = Inl ''DataOverflowError'' \<and>
   generate_qr_code sample_make_qr sample_resize sample_new_white (replicate 1274 CHR ''x'') 200
     = (Inr (200, 200, True), [ErrorGeneratingQr ''DataOverflowError'']) \<and>
   sample_new_white (- 2, - 2) = Inl ''ValueError'' \<and>
   generate_qr_code sample_make_qr sample_resize sample_new_white ''AB12CD34:R100'' (- 2)
     = (Inl ''ValueError'', [ErrorGeneratingQr ''ValueError''])"
proof -
  have r: "\<And>i sz i'. sample_resize i sz = Inr i' \<Longrightarrow> sample_img_size i' = sz"
    by (auto simp add: sample_resize_def sample_img_size_def split: if_splits)
  have n: "\<And>sz i. sample_new_white sz = Inr i \<Longrightarrow> sample_img_size i = sz"
    by (auto simp add: sample_new_white_def sample_img_size_def split: if_splits)
  note t = generate_qr_code_square
    [of sample_resize sample_img_size sample_new_white sample_make_qr, OF r n]
  from t [where data = "''AB12CD34:R100''" and img = "(290, 290, False)" and n = 200
        and img' = "(200, 200, False)"]
    t [where data = "''AB12CD34:R100''" and img = "(290, 290, False)" and n = 0
        and e = "''ValueError''" and blank = "(0, 0, True)"]
    t [where data = "replicate 1274 CHR ''x''" and n = 200 and e = "''DataOverflowError''"
        and blank = "(200, 200, True)"]
    t [where data = "''AB12CD34:R100''" and img = "(290, 290, False)" and n = "- 2"
        and e = "''ValueError''" and e' = "''ValueError''"]
  show ?thesis
    by (simp add: sample_make_qr_def sample_resize_def sample_new_white_def
        sample_img_size_def)
qed

end
